theory Spec2Isabelle
  imports Complex_Main "HOL-Library.Word"
begin

unbundle bit_operations_syntax

section \<open>Common types\<close>

type_synonym byte = "8 word"
type_synonym u32 = "32 word"

text \<open>
  A \<open>std::chrono\<close> time point is modelled as the integer count of milliseconds
  the clock shows. Every clock read of the source (\<open>steady_clock::now()\<close>,
  \<open>system_clock::now()\<close>) is an input of the function that performs it.
\<close>

type_synonym time_point = int

text \<open>
  \<open>duration_cast<std::chrono::seconds>(d).count()\<close>: whole seconds of a duration,
  truncated towards zero.
\<close>

definition duration_cast_seconds :: "int \<Rightarrow> int" where
  "duration_cast_seconds d = sgn d * (\<bar>d\<bar> div 1000)"

section \<open>Connection (Connection.hpp, Connection.cpp)\<close>

datatype PacketReliability =
    UNRELIABLE
  | UNRELIABLE_SEQUENCED
  | RELIABLE
  | RELIABLE_SEQUENCED
  | RELIABLE_ORDERED

record Packet =
  sequenceNumber :: u32
  timestamp :: u32
  reliability :: PacketReliability
  data :: "byte list"
  isAcknowledged :: bool
  lastResendTime :: time_point

text \<open>
  The fields of \<open>class Connection\<close>. \<open>unacknowledgedPackets_\<close> is a
  \<open>std::unordered_map<uint32_t, Packet>\<close>, \<open>outgoingPackets_\<close> a
  \<open>std::queue<Packet>\<close> (front of the queue = head of the list). The two
  \<open>float\<close> fields are modelled as reals.
\<close>

record Connection =
  unacknowledgedPackets :: "u32 \<rightharpoonup> Packet"
  outgoingPackets :: "Packet list"
  nextSequenceNumber :: u32
  maxPacketSize :: u32
  connected :: bool
  rtt :: real
  packetLoss :: real
  packetsSent :: u32
  packetsReceived :: u32
  packetsLost :: u32
  lastStatsUpdate :: time_point

text \<open>
  \<open>static constexpr float RESEND_TIMEOUT = 0.1f;  // 100ms\<close>: the value of the
  single-precision literal \<open>0.1f\<close> is exactly \<open>13421773 / 2^27\<close>.
\<close>

definition RESEND_TIMEOUT :: real where
  "RESEND_TIMEOUT = 13421773 / 2 ^ 27"

definition MAX_RESEND_ATTEMPTS :: u32 where
  "MAX_RESEND_ATTEMPTS = 5"

text \<open>The constructor \<open>Connection::Connection(maxPacketSize)\<close>, run at instant \<open>now\<close>.\<close>

definition Connection_new :: "u32 \<Rightarrow> time_point \<Rightarrow> Connection" where
  "Connection_new mps now =
     \<lparr> unacknowledgedPackets = Map.empty,
       outgoingPackets = [],
       nextSequenceNumber = 0,
       maxPacketSize = mps,
       connected = False,
       rtt = 0,
       packetLoss = 0,
       packetsSent = 0,
       packetsReceived = 0,
       packetsLost = 0,
       lastStatsUpdate = now \<rparr>"

text \<open>
  \<open>Connection::queuePacket\<close>. \<open>wall\<close> is the reading of the system clock in
  milliseconds, \<open>now\<close> the reading of the steady clock.
\<close>

definition queuePacket ::
  "int \<Rightarrow> time_point \<Rightarrow> byte list \<Rightarrow> PacketReliability \<Rightarrow> Connection \<Rightarrow> Connection" where
  "queuePacket wall now d r c =
     (let packet = \<lparr> sequenceNumber = nextSequenceNumber c,
                      timestamp = word_of_int wall,
                      reliability = r,
                      data = d,
                      isAcknowledged = False,
                      lastResendTime = now \<rparr>;
          c1 = c\<lparr>nextSequenceNumber := nextSequenceNumber c + 1\<rparr>
      in if r = UNRELIABLE
         then c1\<lparr>outgoingPackets := outgoingPackets c1 @ [packet]\<rparr>
         else c1\<lparr>unacknowledgedPackets :=
                   (unacknowledgedPackets c1)(sequenceNumber packet \<mapsto> packet)\<rparr>)"

text \<open>\<open>Connection::handleAcknowledgment\<close>: erase the entry if it is present.\<close>

definition handleAcknowledgment :: "u32 \<Rightarrow> Connection \<Rightarrow> Connection" where
  "handleAcknowledgment s c =
     (case unacknowledgedPackets c s of
        None \<Rightarrow> c
      | Some p \<Rightarrow> c\<lparr>unacknowledgedPackets := (unacknowledgedPackets c)(s := None)\<rparr>)"

text \<open>
  \<open>Connection::shouldResendPacket\<close>. The elapsed time is cast to whole seconds
  (an integer) and that integer is compared with the float \<open>RESEND_TIMEOUT\<close>.
\<close>

definition shouldResendPacket :: "time_point \<Rightarrow> Packet \<Rightarrow> bool" where
  "shouldResendPacket now packet =
     (if isAcknowledged packet then False
      else let timeSinceLastResend = duration_cast_seconds (now - lastResendTime packet)
           in real_of_int timeSinceLastResend \<ge> RESEND_TIMEOUT)"

text \<open>
  \<open>Connection::resendUnacknowledgedPackets\<close>: one pass over the table. An entry
  for which \<open>shouldResendPacket\<close> holds gets \<open>lastResendTime = now\<close> and
  stays; any other entry is erased.
\<close>

definition resendUnacknowledgedPackets :: "time_point \<Rightarrow> Connection \<Rightarrow> Connection" where
  "resendUnacknowledgedPackets now c =
     c\<lparr>unacknowledgedPackets :=
         (\<lambda>k. case unacknowledgedPackets c k of
                None \<Rightarrow> None
              | Some p \<Rightarrow> if shouldResendPacket now p
                          then Some (p\<lparr>lastResendTime := now\<rparr>)
                          else None)\<rparr>"

text \<open>
  \<open>Connection::updateStatistics\<close>:
  \<open>packetLoss_ = static_cast<float>(packetsLost_) / packetsSent_\<close> when
  \<open>packetsSent_ > 0\<close>. The float quotient is modelled by the exact quotient.
\<close>

definition updateStatistics :: "Connection \<Rightarrow> Connection" where
  "updateStatistics c =
     (if packetsSent c > 0
      then c\<lparr>packetLoss := real (unat (packetsLost c)) / real (unat (packetsSent c))\<rparr>
      else c)"

text \<open>\<open>Connection::update\<close> (the \<open>deltaTime\<close> argument is unused by the source).\<close>

definition Connection_update :: "time_point \<Rightarrow> Connection \<Rightarrow> Connection" where
  "Connection_update now c =
     (let c1 = (if duration_cast_seconds (now - lastStatsUpdate c) \<ge> 1
                then (updateStatistics c)\<lparr>lastStatsUpdate := now\<rparr>
                else c)
      in resendUnacknowledgedPackets now c1)"

text \<open>
  The first four bytes of a packet read as a \<open>uint32_t\<close> through
  \<open>reinterpret_cast\<close>, and the inverse store (little-endian host). The
  caller has checked that there are at least four bytes.
\<close>

definition read_u32 :: "byte list \<Rightarrow> u32" where
  "read_u32 bs =
     ucast (bs ! 0) OR push_bit 8 (ucast (bs ! 1))
       OR push_bit 16 (ucast (bs ! 2)) OR push_bit 24 (ucast (bs ! 3))"

definition write_u32 :: "u32 \<Rightarrow> byte list" where
  "write_u32 w = [ucast w, ucast (drop_bit 8 w), ucast (drop_bit 16 w), ucast (drop_bit 24 w)]"

text \<open>
  \<open>Connection::processIncomingPacket\<close>: returns the \<open>bool\<close> result and the
  connection afterwards.
\<close>

definition processIncomingPacket ::
  "int \<Rightarrow> time_point \<Rightarrow> byte list \<Rightarrow> Connection \<Rightarrow> bool \<times> Connection" where
  "processIncomingPacket wall now d c =
     (if length d < 4 then (False, c)
      else let sequenceNumber = read_u32 d;
               ackData = write_u32 sequenceNumber;
               c1 = queuePacket wall now ackData UNRELIABLE c;
               c2 = c1\<lparr>packetsReceived := packetsReceived c1 + 1\<rparr>
           in if length d = 4
              then (True, handleAcknowledgment sequenceNumber c2)
              else (True, c2))"

text \<open>
  \<open>Connection::getPacketsToSend\<close> visits the table in the unspecified order of the
  hash map; \<open>keys\<close> is that order. Returns the packets and the connection afterwards.
\<close>

definition getPacketsToSend ::
  "time_point \<Rightarrow> u32 list \<Rightarrow> Connection \<Rightarrow> Packet list \<times> Connection" where
  "getPacketsToSend now keys c =
     (let due = filter (\<lambda>k. case unacknowledgedPackets c k of
                               None \<Rightarrow> False
                             | Some p \<Rightarrow> shouldResendPacket now p) keys;
          resent = map (\<lambda>k. the (unacknowledgedPackets c k)) due;
          tbl = (\<lambda>k. case unacknowledgedPackets c k of
                       None \<Rightarrow> None
                     | Some p \<Rightarrow> if k \<in> set due
                                 then Some (p\<lparr>lastResendTime := now\<rparr>)
                                 else Some p)
      in (resent @ outgoingPackets c,
          c\<lparr>unacknowledgedPackets := tbl, outgoingPackets := []\<rparr>))"

section \<open>Packet scheduler (PacketPriority.hpp, PacketPriority.cpp)\<close>

datatype PacketPriority = CRITICAL | HIGH | MEDIUM | LOW | BACKGROUND


datatype QoSLevel = ULTRA_LOW_LATENCY | LOW_LATENCY | BALANCED | HIGH_THROUGHPUT | QOS_RELIABLE

record PacketMetadata =
  priority :: PacketPriority
  qos :: QoSLevel
  deadline :: time_point
  size' :: nat
  sequenceNumber :: u32
  requiresAck :: bool
  bandwidthLimit :: real










section \<open>Compression (Compression.hpp, Compression.cpp)\<close>

datatype Algorithm = NONE | LZ4 | ZSTD

text \<open>
  The LZ4 and Zstandard libraries are not part of the repository; their entry points
  are parameters of the model. A failed call is \<open>None\<close>.
\<close>

record CompressionLib =
  LZ4_compress_default :: "byte list \<Rightarrow> byte list option"
  ZSTD_compress :: "byte list \<Rightarrow> byte list option"
  LZ4_decompress_safe :: "byte list \<Rightarrow> nat \<Rightarrow> byte list option"
  ZSTD_getFrameContentSize :: "byte list \<Rightarrow> nat option"
  ZSTD_decompress :: "byte list \<Rightarrow> nat \<Rightarrow> byte list option"

definition MIN_COMPRESSION_SIZE :: nat where
  "MIN_COMPRESSION_SIZE = 64"

text \<open>\<open>0.8f\<close> is exactly \<open>13421773 / 2^24\<close>.\<close>

definition COMPRESSION_RATIO_THRESHOLD :: real where
  "COMPRESSION_RATIO_THRESHOLD = 13421773 / 2 ^ 24"

text \<open>The \<open>switch\<close> of \<open>Compression::compress\<close>, reached after the guard.\<close>

definition compress_switch :: "CompressionLib \<Rightarrow> byte list \<Rightarrow> Algorithm \<Rightarrow> byte list" where
  "compress_switch lib d alg =
     (case alg of
        LZ4 \<Rightarrow> (case LZ4_compress_default lib d of Some c \<Rightarrow> c | None \<Rightarrow> d)
      | ZSTD \<Rightarrow> (case ZSTD_compress lib d of Some c \<Rightarrow> c | None \<Rightarrow> d)
      | NONE \<Rightarrow> d)"

text \<open>
  \<open>Compression::compress\<close> and \<open>Compression::shouldCompress\<close> call each other.
  The pair is one recursive function on the tagged call; a call that does not
  return has the value \<open>None\<close>.
\<close>

datatype compress_call =
    Call_compress "byte list" Algorithm
  | Call_shouldCompress "byte list" Algorithm

datatype compress_result = Ret_bytes "byte list" | Ret_bool bool

partial_function (option) compress_rec ::
  "CompressionLib \<Rightarrow> compress_call \<Rightarrow> compress_result option" where
  "compress_rec lib call =
     (case call of
        Call_compress d alg \<Rightarrow>
          if d = [] then Some (Ret_bytes d)
          else Option.bind (compress_rec lib (Call_shouldCompress d alg))
                 (\<lambda>r. case r of
                         Ret_bool b \<Rightarrow>
                           if \<not> b then Some (Ret_bytes d)
                           else Some (Ret_bytes (compress_switch lib d alg))
                       | Ret_bytes x \<Rightarrow> None)
      | Call_shouldCompress d alg \<Rightarrow>
          if length d < MIN_COMPRESSION_SIZE then Some (Ret_bool False)
          else Option.bind (compress_rec lib (Call_compress d alg))
                 (\<lambda>r. case r of
                         Ret_bytes compressed \<Rightarrow>
                           Some (Ret_bool (real (length compressed) / real (length d)
                                             < COMPRESSION_RATIO_THRESHOLD))
                       | Ret_bool x \<Rightarrow> None))"

definition compress :: "CompressionLib \<Rightarrow> byte list \<Rightarrow> Algorithm \<Rightarrow> byte list option" where
  "compress lib d alg =
     Option.bind (compress_rec lib (Call_compress d alg))
       (\<lambda>r. case r of Ret_bytes c \<Rightarrow> Some c | Ret_bool x \<Rightarrow> None)"

definition shouldCompress :: "CompressionLib \<Rightarrow> byte list \<Rightarrow> Algorithm \<Rightarrow> bool option" where
  "shouldCompress lib d alg =
     Option.bind (compress_rec lib (Call_shouldCompress d alg))
       (\<lambda>r. case r of Ret_bool b \<Rightarrow> Some b | Ret_bytes x \<Rightarrow> None)"

text \<open>\<open>Compression::decompress\<close>.\<close>

definition decompress :: "CompressionLib \<Rightarrow> byte list \<Rightarrow> Algorithm \<Rightarrow> byte list" where
  "decompress lib compressedData alg =
     (if compressedData = [] then compressedData
      else case alg of
             LZ4 \<Rightarrow>
               if length compressedData < 4 then compressedData
               else (case LZ4_decompress_safe lib (drop 4 compressedData)
                            (unat (read_u32 compressedData)) of
                       Some decompressed \<Rightarrow> decompressed
                     | None \<Rightarrow> compressedData)
           | ZSTD \<Rightarrow>
               (case ZSTD_getFrameContentSize lib compressedData of
                  None \<Rightarrow> compressedData
                | Some originalSize \<Rightarrow>
                    (case ZSTD_decompress lib compressedData originalSize of
                       Some decompressed \<Rightarrow> decompressed
                     | None \<Rightarrow> compressedData))
           | NONE \<Rightarrow> compressedData)"


section \<open>Crypto (Crypto.hpp, Crypto.cpp)\<close>

datatype Mode = ECB | CBC | GCM

definition KEY_SIZE_128 :: nat where "KEY_SIZE_128 = 128"
definition KEY_SIZE_256 :: nat where "KEY_SIZE_256 = 256"
definition BLOCK_SIZE :: nat where "BLOCK_SIZE = 16"
definition GCM_TAG_SIZE :: nat where "GCM_TAG_SIZE = 16"
definition IV_SIZE :: nat where "IV_SIZE = 12"

text \<open>
  The exceptions that leave the class: the two it throws and the one
  \<open>std::vector::resize\<close> throws. All derive from \<open>std::exception\<close>.
\<close>

datatype crypto_error = invalid_argument | runtime_error | length_error

definition SBOX :: "byte list" where
  "SBOX =
    [0x63, 0x7c, 0x77, 0x7b, 0xf2, 0x6b, 0x6f, 0xc5, 0x30, 0x01, 0x67, 0x2b, 0xfe, 0xd7, 0xab, 0x76,
     0xca, 0x82, 0xc9, 0x7d, 0xfa, 0x59, 0x47, 0xf0, 0xad, 0xd4, 0xa2, 0xaf, 0x9c, 0xa4, 0x72, 0xc0,
     0xb7, 0xfd, 0x93, 0x26, 0x36, 0x3f, 0xf7, 0xcc, 0x34, 0xa5, 0xe5, 0xf1, 0x71, 0xd8, 0x31, 0x15,
     0x04, 0xc7, 0x23, 0xc3, 0x18, 0x96, 0x05, 0x9a, 0x07, 0x12, 0x80, 0xe2, 0xeb, 0x27, 0xb2, 0x75,
     0x09, 0x83, 0x2c, 0x1a, 0x1b, 0x6e, 0x5a, 0xa0, 0x52, 0x3b, 0xd6, 0xb3, 0x29, 0xe3, 0x2f, 0x84,
     0x53, 0xd1, 0x00, 0xed, 0x20, 0xfc, 0xb1, 0x5b, 0x6a, 0xcb, 0xbe, 0x39, 0x4a, 0x4c, 0x58, 0xcf,
     0xd0, 0xef, 0xaa, 0xfb, 0x43, 0x4d, 0x33, 0x85, 0x45, 0xf9, 0x02, 0x7f, 0x50, 0x3c, 0x9f, 0xa8,
     0x51, 0xa3, 0x40, 0x8f, 0x92, 0x9d, 0x38, 0xf5, 0xbc, 0xb6, 0xda, 0x21, 0x10, 0xff, 0xf3, 0xd2,
     0xcd, 0x0c, 0x13, 0xec, 0x5f, 0x97, 0x44, 0x17, 0xc4, 0xa7, 0x7e, 0x3d, 0x64, 0x5d, 0x19, 0x73,
     0x60, 0x81, 0x4f, 0xdc, 0x22, 0x2a, 0x90, 0x88, 0x46, 0xee, 0xb8, 0x14, 0xde, 0x5e, 0x0b, 0xdb,
     0xe0, 0x32, 0x3a, 0x0a, 0x49, 0x06, 0x24, 0x5c, 0xc2, 0xd3, 0xac, 0x62, 0x91, 0x95, 0xe4, 0x79,
     0xe7, 0xc8, 0x37, 0x6d, 0x8d, 0xd5, 0x4e, 0xa9, 0x6c, 0x56, 0xf4, 0xea, 0x65, 0x7a, 0xae, 0x08,
     0xba, 0x78, 0x25, 0x2e, 0x1c, 0xa6, 0xb4, 0xc6, 0xe8, 0xdd, 0x74, 0x1f, 0x4b, 0xbd, 0x8b, 0x8a,
     0x70, 0x3e, 0xb5, 0x66, 0x48, 0x03, 0xf6, 0x0e, 0x61, 0x35, 0x57, 0xb9, 0x86, 0xc1, 0x1d, 0x9e,
     0xe1, 0xf8, 0x98, 0x11, 0x69, 0xd9, 0x8e, 0x94, 0x9b, 0x1e, 0x87, 0xe9, 0xce, 0x55, 0x28, 0xdf,
     0x8c, 0xa1, 0x89, 0x0d, 0xbf, 0xe6, 0x42, 0x68, 0x41, 0x99, 0x2d, 0x0f, 0xb0, 0x54, 0xbb, 0x16]"

definition INV_SBOX :: "byte list" where
  "INV_SBOX =
    [0x52, 0x09, 0x6a, 0xd5, 0x30, 0x36, 0xa5, 0x38, 0xbf, 0x40, 0xa3, 0x9e, 0x81, 0xf3, 0xd7, 0xfb,
     0x7c, 0xe3, 0x39, 0x82, 0x9b, 0x2f, 0xff, 0x87, 0x34, 0x8e, 0x43, 0x44, 0xc4, 0xde, 0xe9, 0xcb,
     0x54, 0x7b, 0x94, 0x32, 0xa6, 0xc2, 0x23, 0x3d, 0xee, 0x4c, 0x95, 0x0b, 0x42, 0xfa, 0xc3, 0x4e,
     0x08, 0x2e, 0xa1, 0x66, 0x28, 0xd9, 0x24, 0xb2, 0x76, 0x5b, 0xa2, 0x49, 0x6d, 0x8b, 0xd1, 0x25,
     0x72, 0xf8, 0xf6, 0x64, 0x86, 0x68, 0x98, 0x16, 0xd4, 0xa4, 0x5c, 0xcc, 0x5d, 0x65, 0xb6, 0x92,
     0x6c, 0x70, 0x48, 0x50, 0xfd, 0xed, 0xb9, 0xda, 0x5e, 0x15, 0x46, 0x57, 0xa7, 0x8d, 0x9d, 0x84,
     0x90, 0xd8, 0xab, 0x00, 0x8c, 0xbc, 0xd3, 0x0a, 0xf7, 0xe4, 0x58, 0x05, 0xb8, 0xb3, 0x45, 0x06,
     0xd0, 0x2c, 0x1e, 0x8f, 0xca, 0x3f, 0x0f, 0x02, 0xc1, 0xaf, 0xbd, 0x03, 0x01, 0x13, 0x8a, 0x6b,
     0x3a, 0x91, 0x11, 0x41, 0x4f, 0x67, 0xdc, 0xea, 0x97, 0xf2, 0xcf, 0xce, 0xf0, 0xb4, 0xe6, 0x73,
     0x96, 0xac, 0x74, 0x22, 0xe7, 0xad, 0x35, 0x85, 0xe2, 0xf9, 0x37, 0xe8, 0x1c, 0x75, 0xdf, 0x6e,
     0x47, 0xf1, 0x1a, 0x71, 0x1d, 0x29, 0xc5, 0x89, 0x6f, 0xb7, 0x62, 0x0e, 0xaa, 0x18, 0xbe, 0x1b,
     0xfc, 0x56, 0x3e, 0x4b, 0xc6, 0xd2, 0x79, 0x20, 0x9a, 0xdb, 0xc0, 0xfe, 0x78, 0xcd, 0x5a, 0xf4,
     0x1f, 0xdd, 0xa8, 0x33, 0x88, 0x07, 0xc7, 0x31, 0xb1, 0x12, 0x10, 0x59, 0x27, 0x80, 0xec, 0x5f,
     0x60, 0x51, 0x7f, 0xa9, 0x19, 0xb5, 0x4a, 0x0d, 0x2d, 0xe5, 0x7a, 0x9f, 0x93, 0xc9, 0x9c, 0xef,
     0xa0, 0xe0, 0x3b, 0x4d, 0xae, 0x2a, 0xf5, 0xb0, 0xc8, 0xeb, 0xbb, 0x3c, 0x83, 0x53, 0x99, 0x61,
     0x17, 0x2b, 0x04, 0x7e, 0xba, 0x77, 0xd6, 0x26, 0xe1, 0x69, 0x14, 0x63, 0x55, 0x21, 0x0c, 0x7d]"

definition RCON :: "byte list" where
  "RCON =
    [0x01, 0x02, 0x04, 0x08, 0x10, 0x20, 0x40, 0x80, 0x1b, 0x36]"

text \<open>
  A \<open>std::array<uint8_t, BLOCK_SIZE>\<close> is a list of 16 bytes.
  \<open>std::rotate(b + lo, b + mid, b + hi)\<close> moves the range \<open>[mid, hi)\<close> in front
  of the range \<open>[lo, mid)\<close>.
\<close>

definition rotate_range :: "nat \<Rightarrow> nat \<Rightarrow> nat \<Rightarrow> 'a list \<Rightarrow> 'a list" where
  "rotate_range lo mid hi xs =
     take lo xs @ take (hi - mid) (drop mid xs) @ take (mid - lo) (drop lo xs) @ drop hi xs"

text \<open>\<open>Crypto::xorBlocks\<close>: \<open>dest[i] ^= src[i]\<close> for \<open>i < BLOCK_SIZE\<close>.\<close>

definition xorBlocks :: "byte list \<Rightarrow> byte list \<Rightarrow> byte list" where
  "xorBlocks dest src = map (\<lambda>i. (dest ! i) XOR (src ! i)) [0..<BLOCK_SIZE]"

text \<open>\<open>Crypto::generateRoundKey\<close>; the last loop updates the array in place.\<close>

definition generateRoundKey :: "byte list \<Rightarrow> nat \<Rightarrow> byte list" where
  "generateRoundKey key rnd =
     (let rk1 = rotate_range 12 13 16 key;
          rk2 = fold (\<lambda>i rk. rk[i := SBOX ! unat (rk ! i)]) [12..<16] rk1;
          rk3 = rk2[0 := (rk2 ! 0) XOR (RCON ! rnd)]
      in fold (\<lambda>i rk. rk[i + 4 := (rk ! i) XOR (rk ! (i + 4))]) [0..<12] rk3)"

text \<open>The source's MixColumns step on the four bytes at \<open>4i .. 4i+3\<close>.\<close>

definition mix_column :: "nat \<Rightarrow> byte list \<Rightarrow> byte list" where
  "mix_column i block =
     (let s0 = block ! (i * 4);
          s1 = block ! (i * 4 + 1);
          s2 = block ! (i * 4 + 2);
          s3 = block ! (i * 4 + 3);
          b0 = block[i * 4 := push_bit 1 s0 XOR push_bit 1 s1 XOR s1 XOR s2 XOR s3];
          b1 = b0[i * 4 + 1 := s0 XOR push_bit 1 s1 XOR push_bit 1 s2 XOR s2 XOR s3];
          b2 = b1[i * 4 + 2 := s0 XOR s1 XOR push_bit 1 s2 XOR push_bit 1 s3 XOR s3]
      in b2[i * 4 + 3 := push_bit 1 s0 XOR s0 XOR s1 XOR s2 XOR push_bit 1 s3])"

definition mix_columns :: "byte list \<Rightarrow> byte list" where
  "mix_columns block = fold mix_column [0..<4] block"

text \<open>One round of \<open>Crypto::encryptBlock\<close>.\<close>

definition encrypt_round :: "byte list \<Rightarrow> nat \<Rightarrow> byte list \<Rightarrow> byte list" where
  "encrypt_round key rnd block =
     (let b1 = map (\<lambda>byte. SBOX ! unat byte) block;
          b2 = rotate_range 4 5 8 b1;
          b3 = rotate_range 8 10 12 b2;
          b4 = rotate_range 12 15 16 b3;
          b5 = (if rnd < 9 then mix_columns b4 else b4)
      in xorBlocks b5 (generateRoundKey key rnd))"

definition encryptBlock :: "byte list \<Rightarrow> byte list \<Rightarrow> byte list" where
  "encryptBlock block key = fold (encrypt_round key) [0..<10] (xorBlocks block key)"

text \<open>One round of \<open>Crypto::decryptBlock\<close>.\<close>

definition decrypt_round :: "byte list \<Rightarrow> nat \<Rightarrow> byte list \<Rightarrow> byte list" where
  "decrypt_round key rnd block =
     (let b1 = rotate_range 12 15 16 block;
          b2 = rotate_range 8 10 12 b1;
          b3 = rotate_range 4 5 8 b2;
          b4 = map (\<lambda>byte. INV_SBOX ! unat byte) b3;
          b5 = xorBlocks b4 (generateRoundKey key rnd)
      in if rnd < 9 then mix_columns b5 else b5)"

definition decryptBlock :: "byte list \<Rightarrow> byte list \<Rightarrow> byte list" where
  "decryptBlock block key = fold (decrypt_round key) [0..<10] (xorBlocks block key)"

definition validateKey :: "byte list \<Rightarrow> bool" where
  "validateKey key = (length key = KEY_SIZE_128 div 8 \<or> length key = KEY_SIZE_256 div 8)"

definition validateIV :: "byte list \<Rightarrow> bool" where
  "validateIV iv = (length iv = IV_SIZE)"

text \<open>\<open>Crypto::padBlock\<close>.\<close>

definition padBlock :: "byte list \<Rightarrow> byte list" where
  "padBlock d =
     (let paddingSize = BLOCK_SIZE - (length d mod BLOCK_SIZE)
      in d @ replicate paddingSize (of_nat paddingSize))"

text \<open>
  \<open>Crypto::unpadBlock\<close>. \<open>data.resize(data.size() - paddingSize)\<close> with more
  padding than data would ask for a size near \<open>2^64\<close> and throw
  \<open>std::length_error\<close>, also a \<open>std::exception\<close>; the callers pass a non-empty
  multiple of 16 bytes or nothing.
\<close>

definition unpadBlock :: "byte list \<Rightarrow> crypto_error + byte list" where
  "unpadBlock d =
     (if d = [] then Inr d
      else let paddingSize = last d
           in if unat paddingSize > BLOCK_SIZE \<or> paddingSize = 0 then Inl runtime_error
              else if unat paddingSize > length d then Inl length_error
              else Inr (take (length d - unat paddingSize) d))"

text \<open>The block loops of the four mode functions.\<close>

function ecb_encrypt_blocks :: "byte list \<Rightarrow> byte list \<Rightarrow> byte list" where
  "ecb_encrypt_blocks keyArray d =
     (if d = [] then []
      else encryptBlock (take BLOCK_SIZE d) keyArray
             @ ecb_encrypt_blocks keyArray (drop BLOCK_SIZE d))"
  by pat_completeness auto
termination
  by (relation "measure (\<lambda>(k, d). length d)") (auto simp: BLOCK_SIZE_def)

function ecb_decrypt_blocks :: "byte list \<Rightarrow> byte list \<Rightarrow> byte list" where
  "ecb_decrypt_blocks keyArray d =
     (if d = [] then []
      else decryptBlock (take BLOCK_SIZE d) keyArray
             @ ecb_decrypt_blocks keyArray (drop BLOCK_SIZE d))"
  by pat_completeness auto
termination
  by (relation "measure (\<lambda>(k, d). length d)") (auto simp: BLOCK_SIZE_def)

function cbc_encrypt_blocks :: "byte list \<Rightarrow> byte list \<Rightarrow> byte list \<Rightarrow> byte list" where
  "cbc_encrypt_blocks keyArray previousBlock d =
     (if d = [] then []
      else let block = encryptBlock (xorBlocks (take BLOCK_SIZE d) previousBlock) keyArray
           in block @ cbc_encrypt_blocks keyArray block (drop BLOCK_SIZE d))"
  by pat_completeness auto
termination
  by (relation "measure (\<lambda>(k, p, d). length d)") (auto simp: BLOCK_SIZE_def)

function cbc_decrypt_blocks :: "byte list \<Rightarrow> byte list \<Rightarrow> byte list \<Rightarrow> byte list" where
  "cbc_decrypt_blocks keyArray previousBlock d =
     (if d = [] then []
      else let currentBlock = take BLOCK_SIZE d;
               block = xorBlocks (decryptBlock currentBlock keyArray) previousBlock
           in block @ cbc_decrypt_blocks keyArray currentBlock (drop BLOCK_SIZE d))"
  by pat_completeness auto
termination
  by (relation "measure (\<lambda>(k, p, d). length d)") (auto simp: BLOCK_SIZE_def)

text \<open>\<open>Crypto::encryptECB\<close> and \<open>Crypto::decryptECB\<close>.\<close>

definition encryptECB :: "byte list \<Rightarrow> byte list \<Rightarrow> byte list" where
  "encryptECB d key = ecb_encrypt_blocks (take BLOCK_SIZE key) (padBlock d)"

definition decryptECB :: "byte list \<Rightarrow> byte list \<Rightarrow> crypto_error + byte list" where
  "decryptECB d key =
     (if length d mod BLOCK_SIZE \<noteq> 0 then Inl invalid_argument
      else unpadBlock (ecb_decrypt_blocks (take BLOCK_SIZE key) d))"

text \<open>
  \<open>Crypto::encryptCBC\<close> and \<open>Crypto::decryptCBC\<close>. \<open>previousBlock\<close> is a
  16-byte array into which the 12 bytes of the IV are copied; its last four bytes
  are never written before they are read. \<open>junk\<close> stands for those four bytes.
\<close>

definition encryptCBC :: "byte list \<Rightarrow> byte list \<Rightarrow> byte list \<Rightarrow> byte list \<Rightarrow> byte list" where
  "encryptCBC junk d key iv =
     cbc_encrypt_blocks (take BLOCK_SIZE key) (iv @ junk) (padBlock d)"

definition decryptCBC ::
  "byte list \<Rightarrow> byte list \<Rightarrow> byte list \<Rightarrow> byte list \<Rightarrow> crypto_error + byte list" where
  "decryptCBC junk d key iv =
     (if length d mod BLOCK_SIZE \<noteq> 0 then Inl invalid_argument
      else unpadBlock (cbc_decrypt_blocks (take BLOCK_SIZE key) (iv @ junk) d))"

text \<open>
  \<open>Crypto::encryptGCM\<close>: the CBC ciphertext followed by the 16 bytes of the local
  array \<open>tag\<close>, which the function never writes; \<open>tag\<close> stands for its contents.
\<close>

definition encryptGCM ::
  "byte list \<Rightarrow> byte list \<Rightarrow> byte list \<Rightarrow> byte list \<Rightarrow> byte list \<Rightarrow> byte list" where
  "encryptGCM junk tag d key iv = encryptCBC junk d key iv @ tag"

text \<open>
  \<open>Crypto::decryptGCM\<close>: \<open>receivedTag\<close> is copied out of the input and
  \<open>computedTag\<close> is declared; neither is read again.
\<close>

definition decryptGCM ::
  "byte list \<Rightarrow> byte list \<Rightarrow> byte list \<Rightarrow> byte list \<Rightarrow> crypto_error + byte list" where
  "decryptGCM junk d key iv =
     (if length d < GCM_TAG_SIZE then Inl invalid_argument
      else let receivedTag = drop (length d - GCM_TAG_SIZE) d;
               encryptedData = take (length d - GCM_TAG_SIZE) d
           in decryptCBC junk encryptedData key iv)"

text \<open>\<open>Crypto::encrypt\<close> and \<open>Crypto::decrypt\<close>.\<close>

definition Crypto_encrypt ::
  "byte list \<Rightarrow> byte list \<Rightarrow> byte list \<Rightarrow> byte list \<Rightarrow> byte list \<Rightarrow> Mode
     \<Rightarrow> crypto_error + byte list" where
  "Crypto_encrypt junk tag d key iv mode =
     (if \<not> validateKey key \<or> \<not> validateIV iv then Inl invalid_argument
      else case mode of
             ECB \<Rightarrow> Inr (encryptECB d key)
           | CBC \<Rightarrow> Inr (encryptCBC junk d key iv)
           | GCM \<Rightarrow> Inr (encryptGCM junk tag d key iv))"

definition Crypto_decrypt ::
  "byte list \<Rightarrow> byte list \<Rightarrow> byte list \<Rightarrow> byte list \<Rightarrow> Mode \<Rightarrow> crypto_error + byte list" where
  "Crypto_decrypt junk encryptedData key iv mode =
     (if \<not> validateKey key \<or> \<not> validateIV iv then Inl invalid_argument
      else case mode of
             ECB \<Rightarrow> decryptECB encryptedData key
           | CBC \<Rightarrow> decryptCBC junk encryptedData key iv
           | GCM \<Rightarrow> decryptGCM junk encryptedData key iv)"


section \<open>NetworkManager (NetworkManager.hpp, NetworkManager.cpp)\<close>

datatype NetworkProtocol = UDP | TCP

record NetworkConfig =
  protocol :: NetworkProtocol
  port :: "16 word"
  maxConnections :: u32
  bufferSize :: u32
  enableCompression :: bool
  compressionAlgorithm :: Algorithm
  enableEncryption :: bool
  encryptionMode :: Mode
  encryptionKey :: "byte list"
  maxPacketSize :: u32
  fragmentSize :: u32
  fragmentTimeout :: u32
  connectionTimeout :: u32
  keepAliveInterval :: u32
  enablePacketValidation :: bool
  enablePacketLogging :: bool

record NetworkMessage =
  data :: "byte list"
  timestamp :: u32
  reliability :: PacketReliability
  messageId :: u32
  fragmentIndex :: u32
  totalFragments :: u32
  isFragment :: bool

record FragmentInfo =
  fragments :: "NetworkMessage list"
  timestamp :: time_point
  totalFragments :: u32
  receivedFragments :: u32

text \<open>
  The state of \<open>class NetworkManager\<close> that sending and receiving touch.
  \<open>messageCallback_\<close> is represented by \<open>hasMessageCallback\<close> (whether a
  callback is installed) and by \<open>callbackLog\<close>, the arguments of its invocations
  in order. \<open>messageQueue_\<close> is a \<open>std::queue\<close> (front = head of the list).
\<close>

record NetworkManager =
  config :: NetworkConfig
  running :: bool
  hasMessageCallback :: bool
  callbackLog :: "NetworkMessage list"
  messageQueue :: "NetworkMessage list"
  bytesSent :: nat
  fragmentMap :: "u32 \<rightharpoonup> FragmentInfo"
  nextMessageId :: u32
  lastActivity :: "u32 \<rightharpoonup> time_point"

text \<open>
  What the functions read that is neither an argument nor a field: the compression
  library, the bytes \<open>Crypto::generateIV\<close> draws, the two clocks, and the contents
  of storage that is read before it is written (the four-byte tail of
  \<open>previousBlock\<close>, the GCM \<open>tag\<close> array, the fields of a default-initialised
  \<open>NetworkMessage\<close>). One environment serves one call; where a call reads the
  same source twice it is given the same value twice.
\<close>

record Env =
  compression_lib :: CompressionLib
  generateIV :: "byte list"
  system_clock_now :: int
  steady_clock_now :: time_point
  previousBlock_tail :: "byte list"
  gcm_tag :: "byte list"
  uninitialized :: NetworkMessage

text \<open>Undefined behaviour of the source that the model makes a result.\<close>

datatype fault = out_of_bounds | division_by_zero

text \<open>
  \<open>NetworkManager::processOutgoingData\<close>. \<open>None\<close>: the call does not return;
  \<open>Some (Inl e)\<close>: \<open>Crypto::encrypt\<close> threw \<open>e\<close>.
\<close>

definition processOutgoingData ::
  "Env \<Rightarrow> NetworkConfig \<Rightarrow> byte list \<Rightarrow> (crypto_error + byte list) option" where
  "processOutgoingData env cfg d =
     Option.bind
       (if enableCompression cfg then compress (compression_lib env) d (compressionAlgorithm cfg)
        else Some d)
       (\<lambda>processedData.
          if enableEncryption cfg
          then (let iv = generateIV env
                in case Crypto_encrypt (previousBlock_tail env) (gcm_tag env) processedData
                          (encryptionKey cfg) iv (encryptionMode cfg) of
                     Inl e \<Rightarrow> Some (Inl e)
                   | Inr encrypted \<Rightarrow> Some (Inr (iv @ encrypted)))
          else Some (Inr processedData))"

text \<open>
  The decoding steps of \<open>NetworkManager::processIncomingData\<close> (decrypt, then
  decompress). Each \<open>Inl\<close> is a path on which the function writes to
  \<open>std::cerr\<close> and returns.
\<close>

datatype decode_error = invalid_encrypted_data_size | decryption_failed crypto_error

definition decodeIncoming ::
  "Env \<Rightarrow> NetworkConfig \<Rightarrow> byte list \<Rightarrow> decode_error + byte list" where
  "decodeIncoming env cfg d =
     (case (if enableEncryption cfg
            then (if length d < IV_SIZE then Inl invalid_encrypted_data_size
                  else let iv = take IV_SIZE d;
                           encryptedData = drop IV_SIZE d
                       in case Crypto_decrypt (previousBlock_tail env) encryptedData
                                 (encryptionKey cfg) iv (encryptionMode cfg) of
                            Inl e \<Rightarrow> Inl (decryption_failed e)
                          | Inr p \<Rightarrow> Inr p)
            else Inr d) of
        Inl e \<Rightarrow> Inl e
      | Inr processedData \<Rightarrow>
          if enableCompression cfg
          then Inr (decompress (compression_lib env) processedData (compressionAlgorithm cfg))
          else Inr processedData)"

definition isFragmentComplete :: "FragmentInfo \<Rightarrow> bool" where
  "isFragmentComplete fragmentInfo =
     (receivedFragments fragmentInfo = FragmentInfo.totalFragments fragmentInfo)"

text \<open>
  \<open>NetworkManager::reassembleFragments\<close>. \<open>fragments[0]\<close> is read without a
  check. \<open>fragmentIndex\<close> and \<open>totalFragments\<close> of the result are never assigned.
\<close>

definition reassembleFragments :: "Env \<Rightarrow> FragmentInfo \<Rightarrow> fault + NetworkMessage" where
  "reassembleFragments env fragmentInfo =
     (case fragments fragmentInfo of
        [] \<Rightarrow> Inl out_of_bounds
      | f0 # rest \<Rightarrow>
          Inr ((uninitialized env)
                 \<lparr> messageId := messageId f0,
                   reliability := NetworkMessage.reliability f0,
                   NetworkMessage.timestamp := NetworkMessage.timestamp f0,
                   isFragment := False,
                   data := concat (map NetworkMessage.data (fragments fragmentInfo)) \<rparr>))"

text \<open>The tail of \<open>processIncomingData\<close>: activity stamp, callback, queue.\<close>

definition deliver :: "Env \<Rightarrow> u32 \<Rightarrow> NetworkMessage \<Rightarrow> NetworkManager \<Rightarrow> NetworkManager" where
  "deliver env clientId message m =
     m\<lparr> lastActivity := (lastActivity m)(clientId \<mapsto> steady_clock_now env),
        callbackLog := (if hasMessageCallback m then callbackLog m @ [message]
                        else callbackLog m),
        messageQueue := messageQueue m @ [message] \<rparr>"

text \<open>
  \<open>NetworkManager::processIncomingData\<close>. The local \<open>message\<close> is
  default-initialised; only \<open>data\<close> and \<open>timestamp\<close> are assigned before
  \<open>isFragment\<close>, \<open>messageId\<close>, \<open>fragmentIndex\<close> and \<open>totalFragments\<close> are read.
  \<open>fragmentMap_[id]\<close> creates a value-initialised group when there is none.
  \<open>fragments[fragmentIndex]\<close> is \<open>std::vector::operator[]\<close>, unchecked.
\<close>

definition processIncomingData ::
  "Env \<Rightarrow> byte list \<Rightarrow> u32 \<Rightarrow> NetworkManager \<Rightarrow> fault + NetworkManager" where
  "processIncomingData env d clientId m =
     (if d = [] then Inr m
      else case decodeIncoming env (config m) d of
        Inl e \<Rightarrow> Inr m
      | Inr processedData \<Rightarrow>
          let message = (uninitialized env)
                          \<lparr> data := processedData,
                            NetworkMessage.timestamp := word_of_int (system_clock_now env) \<rparr>
          in if isFragment message
             then
               let fi0 = (case fragmentMap m (messageId message) of
                            None \<Rightarrow> \<lparr> fragments = [], timestamp = 0,
                                      totalFragments = 0, receivedFragments = 0 \<rparr>
                          | Some fi \<Rightarrow> fi);
                   fi1 = (if fragments fi0 = []
                          then fi0\<lparr> timestamp := steady_clock_now env,
                                   totalFragments := NetworkMessage.totalFragments message,
                                   receivedFragments := 0 \<rparr>
                          else fi0)
               in if \<not> unat (fragmentIndex message) < length (fragments fi1)
                  then Inl out_of_bounds
                  else
                    let fi2 = fi1\<lparr> fragments :=
                                      (fragments fi1)[unat (fragmentIndex message) := message],
                                    receivedFragments := receivedFragments fi1 + 1 \<rparr>;
                        m1 = m\<lparr>fragmentMap := (fragmentMap m)(messageId message \<mapsto> fi2)\<rparr>
                    in if isFragmentComplete fi2
                       then (case reassembleFragments env fi2 of
                               Inl f \<Rightarrow> Inl f
                             | Inr reassembled \<Rightarrow>
                                 Inr (deliver env clientId reassembled
                                        (m1\<lparr>fragmentMap :=
                                              (fragmentMap m1)(messageId reassembled := None)\<rparr>)))
                       else Inr m1
             else Inr (deliver env clientId message m))"

text \<open>
  \<open>NetworkManager::fragmentMessage\<close>. The sizes are \<open>size_t\<close>; the index and the
  count are cast to \<open>uint32_t\<close> when they are stored.
\<close>

definition fragmentMessage :: "NetworkConfig \<Rightarrow> NetworkMessage \<Rightarrow> fault + NetworkMessage list" where
  "fragmentMessage cfg message =
     (let fs = unat (fragmentSize cfg);
          n = length (data message)
      in if fs = 0 then Inl division_by_zero
         else
           let totalFragments = (n + fs - 1) div fs
           in Inr (map (\<lambda>i. \<lparr> data = take (min (i * fs + fs) n - i * fs)
                                          (drop (i * fs) (data message)),
                                 timestamp = NetworkMessage.timestamp message,
                                 reliability = NetworkMessage.reliability message,
                                 messageId = messageId message,
                                 fragmentIndex = of_nat i,
                                 totalFragments = of_nat totalFragments,
                                 isFragment = True \<rparr>)
                       [0..<totalFragments]))"


text \<open>
  The manager after its constructor and \<open>initialize(config)\<close>, and
  \<open>setMessageCallback\<close>.
\<close>

definition NetworkManager_initialize :: "NetworkConfig \<Rightarrow> NetworkManager" where
  "NetworkManager_initialize cfg =
     \<lparr> config = cfg,
       running = False,
       hasMessageCallback = False,
       callbackLog = [],
       messageQueue = [],
       bytesSent = 0,
       fragmentMap = Map.empty,
       nextMessageId = 0,
       lastActivity = Map.empty \<rparr>"

definition setMessageCallback :: "NetworkManager \<Rightarrow> NetworkManager" where
  "setMessageCallback m = m\<lparr>hasMessageCallback := True\<rparr>"

text \<open>
  \<open>NetworkManager::send\<close> calls itself on every fragment. The function and its
  loop over the fragments are one recursive function on the tagged call; \<open>None\<close>
  is a call that does not return (\<open>Compression::compress\<close> may not). The result
  is the \<open>int\<close> returned and the manager afterwards, or the failure that ends
  the call: undefined behaviour, or an exception that \<open>Crypto::encrypt\<close> throws
  and nothing catches. Logging and validation write nothing the model keeps, and
  \<open>static_cast<int>\<close> of a size is the size (payloads stay below \<open>2^31\<close> bytes).
\<close>

datatype send_failure = undefined_behaviour fault | exception crypto_error

datatype send_call =
    Call_send NetworkMessage
  | Call_send_fragments "NetworkMessage list" int

text \<open>\<open>if (msg.messageId == 0) msg.messageId = ++nextMessageId_;\<close>\<close>

definition generateMessageId ::
  "NetworkMessage \<Rightarrow> NetworkManager \<Rightarrow> NetworkMessage \<times> NetworkManager" where
  "generateMessageId message m =
     (if messageId message = 0
      then (message\<lparr>messageId := nextMessageId m + 1\<rparr>,
            m\<lparr>nextMessageId := nextMessageId m + 1\<rparr>)
      else (message, m))"

partial_function (option) send_rec ::
  "Env \<Rightarrow> send_call \<Rightarrow> NetworkManager \<Rightarrow> (send_failure + int \<times> NetworkManager) option" where
  "send_rec env call m =
     (case call of
        Call_send message \<Rightarrow>
          if \<not> running m then Some (Inr (- 1, m))
          else
            (case generateMessageId message m of
               (msg, m1) \<Rightarrow>
                 if length (data msg) > unat (fragmentSize (config m1))
                 then (case fragmentMessage (config m1) msg of
                         Inl f \<Rightarrow> Some (Inl (undefined_behaviour f))
                       | Inr frags \<Rightarrow> send_rec env (Call_send_fragments frags 0) m1)
                 else Option.bind (processOutgoingData env (config m1) (data msg))
                        (\<lambda>r. case r of
                                Inl e \<Rightarrow> Some (Inl (exception e))
                              | Inr processedData \<Rightarrow>
                                  if processedData = [] then Some (Inr (- 1, m1))
                                  else Some (Inr (int (length processedData),
                                                  m1\<lparr>bytesSent := bytesSent m1
                                                                      + length processedData\<rparr>))))
      | Call_send_fragments frags totalSent \<Rightarrow>
          (case frags of
             [] \<Rightarrow> Some (Inr (totalSent, m))
           | fragment # rest \<Rightarrow>
               Option.bind (send_rec env (Call_send fragment) m)
                 (\<lambda>r. case r of
                         Inl e \<Rightarrow> Some (Inl e)
                       | Inr (sent, m') \<Rightarrow>
                           if sent < 0 then Some (Inr (sent, m'))
                           else send_rec env (Call_send_fragments rest (totalSent + sent)) m')))"

definition send ::
  "Env \<Rightarrow> NetworkMessage \<Rightarrow> NetworkManager \<Rightarrow> (send_failure + int \<times> NetworkManager) option" where
  "send env message m = send_rec env (Call_send message) m"


section \<open>Auxiliary notions for the proofs\<close>

text \<open>The calls of the compression pair whose argument is below \<open>MIN_COMPRESSION_SIZE\<close>.\<close>

fun small_call :: "compress_call \<Rightarrow> bool" where
  "small_call (Call_compress d alg) = (length d < MIN_COMPRESSION_SIZE)"
| "small_call (Call_shouldCompress d alg) = (length d < MIN_COMPRESSION_SIZE)"

text \<open>The fragment that \<open>fragmentMessage\<close> builds for index \<open>i\<close>, in closed form.\<close>

definition fragment_at :: "NetworkConfig \<Rightarrow> NetworkMessage \<Rightarrow> nat \<Rightarrow> NetworkMessage" where
  "fragment_at cfg message i =
     \<lparr> data = take (unat (fragmentSize cfg)) (drop (i * unat (fragmentSize cfg)) (data message)),
       timestamp = NetworkMessage.timestamp message,
       reliability = NetworkMessage.reliability message,
       messageId = messageId message,
       fragmentIndex = of_nat i,
       totalFragments =
         of_nat ((length (data message) + unat (fragmentSize cfg) - 1) div unat (fragmentSize cfg)),
       isFragment = True \<rparr>"

text \<open>Every fragment group of the manager has an empty \<open>fragments\<close> vector.\<close>

definition groups_empty :: "NetworkManager \<Rightarrow> bool" where
  "groups_empty m = (\<forall>fi \<in> ran (fragmentMap m). fragments fi = [])"

section \<open>Concrete inputs\<close>

text \<open>
  A configuration with compression and encryption off and fragments of two bytes, and
  the same configuration with encryption on in a given mode under the all-zero
  128-bit key.
\<close>

definition plain_config :: NetworkConfig where
  "plain_config =
     \<lparr> protocol = UDP, port = 7777, maxConnections = 8, bufferSize = 1024,
       enableCompression = False, compressionAlgorithm = ZSTD,
       enableEncryption = False, encryptionMode = GCM, encryptionKey = replicate 16 0,
       maxPacketSize = 1200, fragmentSize = 2, fragmentTimeout = 2000,
       connectionTimeout = 5000, keepAliveInterval = 1000,
       enablePacketValidation = False, enablePacketLogging = False \<rparr>"

definition encrypted_config :: "Mode \<Rightarrow> NetworkConfig" where
  "encrypted_config mode = plain_config\<lparr>enableEncryption := True, encryptionMode := mode\<rparr>"

text \<open>A compression library every call of which fails.\<close>

definition failing_lib :: CompressionLib where
  "failing_lib =
     \<lparr> LZ4_compress_default = (\<lambda>d. None), ZSTD_compress = (\<lambda>d. None),
       LZ4_decompress_safe = (\<lambda>d n. None), ZSTD_getFrameContentSize = (\<lambda>d. None),
       ZSTD_decompress = (\<lambda>d n. None) \<rparr>"

text \<open>
  An environment in which the clocks show 0, the IV drawn is all zero, and stale
  storage holds zero bytes and the message \<open>u\<close>.
\<close>

definition env_with :: "NetworkMessage \<Rightarrow> Env" where
  "env_with u =
     \<lparr> compression_lib = failing_lib, generateIV = replicate 12 0,
       system_clock_now = 0, steady_clock_now = 0,
       previousBlock_tail = replicate 4 0, gcm_tag = replicate 16 0,
       uninitialized = u \<rparr>"

definition fragment_header :: NetworkMessage where
  "fragment_header =
     \<lparr> data = [], timestamp = 0, reliability = RELIABLE, messageId = 7,
       fragmentIndex = 0, totalFragments = 2, isFragment = True \<rparr>"

definition plain_header :: NetworkMessage where
  "plain_header =
     \<lparr> data = [], timestamp = 0, reliability = RELIABLE, messageId = 0,
       fragmentIndex = 0, totalFragments = 0, isFragment = False \<rparr>"


section \<open>Retransmission timing and the unacknowledged table\<close>

lemma RESEND_TIMEOUT_int: "(RESEND_TIMEOUT \<le> real_of_int x) = (1 \<le> x)"
proof
  assume "RESEND_TIMEOUT \<le> real_of_int x"
  then have "0 < real_of_int x" by (simp add: RESEND_TIMEOUT_def)
  then show "1 \<le> x" by simp
next
  assume "1 \<le> x"
  then have "1 \<le> real_of_int x" by simp
  then show "RESEND_TIMEOUT \<le> real_of_int x" by (simp add: RESEND_TIMEOUT_def)
qed

lemma duration_cast_seconds_ge1: "(1 \<le> duration_cast_seconds d) = (1000 \<le> d)"
proof (cases "0 \<le> d")
  case True
  then show ?thesis
    by (cases "d = 0") (auto simp: duration_cast_seconds_def sgn_if)
next
  case False
  then have "duration_cast_seconds d \<le> 0"
    by (auto simp: duration_cast_seconds_def sgn_if)
  with False show ?thesis by auto
qed

text \<open>
  The comparison of whole seconds with \<open>0.1f\<close> makes one full second the
  threshold of \<open>shouldResendPacket\<close>, whatever the round-trip time.
\<close>

lemma shouldResendPacket_iff:
  "shouldResendPacket now p = (\<not> isAcknowledged p \<and> 1000 \<le> now - lastResendTime p)"
  by (simp add: shouldResendPacket_def Let_def RESEND_TIMEOUT_int duration_cast_seconds_ge1)

lemma resend_pass_table:
  "unacknowledgedPackets (resendUnacknowledgedPackets now c) k =
     (case unacknowledgedPackets c k of
        None \<Rightarrow> None
      | Some p \<Rightarrow> if \<not> isAcknowledged p \<and> 1000 \<le> now - lastResendTime p
                  then Some (p\<lparr>lastResendTime := now\<rparr>) else None)"
  by (simp add: resendUnacknowledgedPackets_def shouldResendPacket_iff split: option.splits)

lemma resend_pass_packetsLost:
  "packetsLost (resendUnacknowledgedPackets now c) = packetsLost c"
  by (simp add: resendUnacknowledgedPackets_def)

text \<open>
  C6. The claim: an unacknowledged packet is eligible for resend exactly when
  \<open>now - last_send_instant \<ge> max(100 ms, 2 RTT)\<close>, so that a packet unacknowledged
  for 150 ms is already eligible. On the code, an unacknowledged packet whose last
  send was 150 ms ago is not eligible: \<open>shouldResendPacket\<close> answers \<open>false\<close>.
\<close>

theorem shouldResendPacket_after_150ms:
  "shouldResendPacket 150
     \<lparr> Packet.sequenceNumber = 0, timestamp = 0, reliability = RELIABLE, data = [],
       isAcknowledged = False, lastResendTime = 0 \<rparr> = False"
  by (simp add: shouldResendPacket_def duration_cast_seconds_def RESEND_TIMEOUT_def)

text \<open>
  C2. The claim: a reliable packet leaves the unacknowledged table only when it is
  acknowledged or its retry budget is exhausted (and then the loss counter grows);
  the periodic resend pass removes nothing. On the code, a reliable packet queued at
  instant 0 is in the table, and the update at 50 ms erases it, with no
  acknowledgement received and the loss counter still 0.
\<close>

theorem resend_pass_erases_fresh_packet:
  "unacknowledgedPackets (queuePacket 0 0 [1, 2, 3] RELIABLE (Connection_new 1024 0)) 0 \<noteq> None
   \<and> unacknowledgedPackets
        (Connection_update 50 (queuePacket 0 0 [1, 2, 3] RELIABLE (Connection_new 1024 0))) 0 = None
   \<and> packetsLost
        (Connection_update 50 (queuePacket 0 0 [1, 2, 3] RELIABLE (Connection_new 1024 0))) = 0"
  by (simp add: Connection_update_def resendUnacknowledgedPackets_def queuePacket_def
        Connection_new_def shouldResendPacket_def duration_cast_seconds_def RESEND_TIMEOUT_def
        updateStatistics_def Let_def)

section \<open>Loss estimate\<close>






section \<open>Scheduling order inside a priority class\<close>









section \<open>Fragmentation\<close>


lemma chunks_cover:
  fixes n fs :: nat
  assumes "0 < fs"
  shows "n \<le> ((n + fs - 1) div fs) * fs"
proof -
  have "n + fs - 1 = ((n + fs - 1) div fs) * fs + (n + fs - 1) mod fs" by simp
  moreover have "(n + fs - 1) mod fs < fs" using assms by simp
  ultimately show ?thesis by linarith
qed

lemma concat_take_chunks:
  "concat (map (\<lambda>i. take fs (drop (i * fs) xs)) [0..<k]) = take (k * fs) xs"
proof (induction k)
  case 0
  show ?case by simp
next
  case (Suc k)
  have "take (k * fs + fs) xs = take (k * fs) xs @ take fs (drop (k * fs) xs)"
    by (simp add: take_add)
  with Suc show ?case by (simp add: add.commute)
qed

lemma take_min_chunk:
  "take (min (i * fs + fs) (length xs) - i * fs) (drop (i * fs) xs) = take fs (drop (i * fs) xs)"
  by (cases "i * fs + fs \<le> length xs") (simp_all add: min_def)


lemma fragmentMessage_Inr:
  assumes "0 < unat (fragmentSize cfg)"
  shows "fragmentMessage cfg message =
           Inr (map (fragment_at cfg message)
                  [0..<(length (data message) + unat (fragmentSize cfg) - 1)
                         div unat (fragmentSize cfg)])"
  using assms
  by (simp add: fragmentMessage_def Let_def take_min_chunk fragment_at_def)





text \<open>
  With compression and encryption off every fragment is sent as it is, so \<open>send\<close>
  on a payload longer than \<open>fragmentSize\<close> returns, and returns the size of the
  payload.
\<close>

lemma send_unfragmented_plain:
  assumes "running m"
    and "\<not> enableCompression (config m)" and "\<not> enableEncryption (config m)"
    and "data f \<noteq> []" and "length (data f) \<le> unat (fragmentSize (config m))"
  shows "\<exists>m'. send_rec env (Call_send f) m = Some (Inr (int (length (data f)), m'))
           \<and> config m' = config m \<and> running m'
           \<and> bytesSent m' = bytesSent m + length (data f)"
  using assms
  by (subst send_rec.simps)
     (auto simp: generateMessageId_def processOutgoingData_def)

lemma send_fragments_plain:
  assumes "running m"
    and "\<not> enableCompression (config m)" and "\<not> enableEncryption (config m)"
    and "\<forall>f \<in> set frags. data f \<noteq> [] \<and> length (data f) \<le> unat (fragmentSize (config m))"
  shows "\<exists>m'. send_rec env (Call_send_fragments frags tot) m
                = Some (Inr (tot + int (length (concat (map data frags))), m'))
           \<and> config m' = config m \<and> running m'
           \<and> bytesSent m' = bytesSent m + length (concat (map data frags))"
  using assms
proof (induction frags arbitrary: m tot)
  case Nil
  then show ?case by (subst send_rec.simps) simp
next
  case (Cons f frags)
  from Cons.prems have f: "data f \<noteq> []" "length (data f) \<le> unat (fragmentSize (config m))"
    by simp_all
  from send_unfragmented_plain [OF Cons.prems(1-3) f, of env]
  obtain m1 where m1: "send_rec env (Call_send f) m = Some (Inr (int (length (data f)), m1))"
    "config m1 = config m" "running m1" "bytesSent m1 = bytesSent m + length (data f)"
    by blast
  from Cons.prems m1(2)
  have rest: "\<forall>g \<in> set frags. data g \<noteq> [] \<and> length (data g) \<le> unat (fragmentSize (config m1))"
    by simp
  from Cons.IH [OF m1(3) _ _ rest, of "tot + int (length (data f))"] Cons.prems(2,3) m1(2)
  obtain m2 where m2: "send_rec env (Call_send_fragments frags (tot + int (length (data f)))) m1
       = Some (Inr (tot + int (length (data f)) + int (length (concat (map data frags))), m2))"
    "config m2 = config m1" "running m2"
    "bytesSent m2 = bytesSent m1 + length (concat (map data frags))"
    by auto
  have "send_rec env (Call_send_fragments (f # frags) tot) m
          = Some (Inr (tot + int (length (concat (map data (f # frags)))), m2))"
    by (subst send_rec.simps) (simp add: m1(1) m2(1))
  with m1 m2 show ?case by auto
qed

lemma chunk_start_less:
  fixes n fs i :: nat
  assumes "0 < fs" and "i < (n + fs - 1) div fs"
  shows "i * fs < n"
proof -
  define k where "k = (n + fs - 1) div fs"
  have a: "k * fs \<le> n + fs - 1" unfolding k_def by simp
  from assms(2) have "Suc i \<le> k" unfolding k_def by simp
  then have b: "Suc i * fs \<le> k * fs" by (rule mult_le_mono1)
  have c: "Suc i * fs = i * fs + fs" by simp
  from a b c assms(1) show ?thesis by linarith
qed

lemma fragment_at_nonempty:
  assumes "0 < unat (fragmentSize cfg)"
    and "i < (length (data message) + unat (fragmentSize cfg) - 1) div unat (fragmentSize cfg)"
  shows "data (fragment_at cfg message i) \<noteq> []"
    and "length (data (fragment_at cfg message i)) \<le> unat (fragmentSize cfg)"
proof -
  from chunk_start_less [OF assms] assms(1)
  show "data (fragment_at cfg message i) \<noteq> []"
    by (simp add: fragment_at_def)
  show "length (data (fragment_at cfg message i)) \<le> unat (fragmentSize cfg)"
    by (simp add: fragment_at_def)
qed

lemma send_returns_plain:
  assumes "running m"
    and "\<not> enableCompression (config m)" and "\<not> enableEncryption (config m)"
    and "0 < fragmentSize (config m)"
    and "unat (fragmentSize (config m)) < length (data message)"
  shows "\<exists>m'. send env message m = Some (Inr (int (length (data message)), m'))
           \<and> bytesSent m' = bytesSent m + length (data message)"
proof -
  obtain msg m1 where gen: "generateMessageId message m = (msg, m1)"
    by (cases "generateMessageId message m")
  then have keep: "data msg = data message" "config m1 = config m" "running m1 = running m"
    "bytesSent m1 = bytesSent m"
    by (auto simp: generateMessageId_def split: if_splits)
  let ?cfg = "config m"
  let ?k = "(length (data msg) + unat (fragmentSize ?cfg) - 1) div unat (fragmentSize ?cfg)"
  let ?frags = "map (fragment_at ?cfg msg) [0..<?k]"
  from assms(4) have fs: "0 < unat (fragmentSize ?cfg)" by (simp add: word_less_nat_alt)
  have fm: "fragmentMessage ?cfg msg = Inr ?frags" by (rule fragmentMessage_Inr [OF fs])
  have cat: "concat (map data ?frags) = data message"
  proof -
    have "concat (map data ?frags)
            = concat (map (\<lambda>i. take (unat (fragmentSize ?cfg))
                                   (drop (i * unat (fragmentSize ?cfg)) (data msg))) [0..<?k])"
      by (simp add: fragment_at_def comp_def)
    also have "\<dots> = take (?k * unat (fragmentSize ?cfg)) (data msg)"
      by (rule concat_take_chunks)
    also have "\<dots> = data msg"
      using chunks_cover [OF fs, of "length (data msg)"] by simp
    finally show ?thesis by (simp add: keep)
  qed
  have each: "\<forall>f \<in> set ?frags. data f \<noteq> [] \<and> length (data f) \<le> unat (fragmentSize (config m1))"
    using fragment_at_nonempty [OF fs, of _ msg] keep(2) by auto
  have "send env message m = send_rec env (Call_send_fragments ?frags 0) m1"
    unfolding send_def using assms(1,5) gen keep fm
    by (subst send_rec.simps) simp
  moreover from send_fragments_plain [OF _ _ _ each, of env 0] assms(1-3) keep
  obtain m' where "send_rec env (Call_send_fragments ?frags 0) m1
      = Some (Inr (0 + int (length (concat (map data ?frags))), m'))"
    "bytesSent m' = bytesSent m1 + length (concat (map data ?frags))"
    by auto
  ultimately show ?thesis using cat keep(4) by auto
qed

section \<open>The receive path\<close>

lemma decodeIncoming_plain:
  "\<not> enableEncryption cfg \<Longrightarrow> \<not> enableCompression cfg \<Longrightarrow> decodeIncoming env cfg d = Inr d"
  by (simp add: decodeIncoming_def)

text \<open>
  No code of the repository resizes or appends to \<open>FragmentInfo::fragments\<close>.
  While every group has an empty vector, a packet taken for a fragment makes
  \<open>processIncomingData\<close> index out of range, whatever its index is; and a packet
  that is processed without that leaves every group's vector empty.
\<close>

lemma fragment_store_faults:
  assumes "d \<noteq> []"
    and "decodeIncoming env (config m) d = Inr pd"
    and "isFragment (uninitialized env)"
    and "groups_empty m"
  shows "processIncomingData env d clientId m = Inl out_of_bounds"
proof -
  let ?id = "messageId (uninitialized env)"
  have "fragments fi = []" if "fragmentMap m ?id = Some fi" for fi
    using that assms(4) by (auto simp: groups_empty_def ran_def)
  then show ?thesis
    using assms(1-3)
    by (auto simp: processIncomingData_def Let_def split: option.splits)
qed

lemma groups_empty_preserved:
  assumes "groups_empty m" and "processIncomingData env d clientId m = Inr m'"
  shows "groups_empty m'"
proof (cases "d = []")
  case True
  with assms show ?thesis by (simp add: processIncomingData_def)
next
  case False
  show ?thesis
  proof (cases "decodeIncoming env (config m) d")
    case (Inl e)
    with False assms show ?thesis by (simp add: processIncomingData_def)
  next
    case (Inr pd)
    show ?thesis
    proof (cases "isFragment (uninitialized env)")
      case True
      from fragment_store_faults [OF False Inr True assms(1)] assms(2)
      show ?thesis by simp
    next
      case notfrag: False
      with False Inr assms(2) have "fragmentMap m' = fragmentMap m"
        by (auto simp: processIncomingData_def Let_def deliver_def)
      with assms(1) show ?thesis by (simp add: groups_empty_def)
    qed
  qed
qed

lemma groups_empty_initialize: "groups_empty (NetworkManager_initialize cfg)"
  by (simp add: groups_empty_def NetworkManager_initialize_def)

text \<open>
  C10. The claim: storing a received fragment at \<open>fragments[fragmentIndex]\<close> is in
  bounds. On the code, the first fragment a freshly initialised manager receives
  (index 0 of 2, message id 7) is stored into an empty vector: the access is out
  of bounds.
\<close>

theorem fragment_store_out_of_bounds:
  "processIncomingData (env_with fragment_header) [1, 2, 3] 0
     (NetworkManager_initialize plain_config) = Inl out_of_bounds"
  by (simp add: processIncomingData_def decodeIncoming_def env_with_def fragment_header_def
        NetworkManager_initialize_def plain_config_def Let_def)

text \<open>
  \<open>Connection::processIncomingPacket\<close> has no memory of the sequence numbers it has
  seen: the same packet processed twice is counted twice and acknowledged twice.
\<close>

lemma processIncomingPacket_twice:
  assumes "4 \<le> length d"
  shows "packetsReceived (snd (processIncomingPacket w2 t2 d (snd (processIncomingPacket w1 t1 d c))))
           = packetsReceived c + 2
         \<and> length (outgoingPackets (snd (processIncomingPacket w2 t2 d
                                           (snd (processIncomingPacket w1 t1 d c)))))
           = length (outgoingPackets c) + 2"
  using assms
  by (auto simp: processIncomingPacket_def queuePacket_def handleAcknowledgment_def Let_def
           split: option.splits)

text \<open>
  C4, as amended. The receive path keeps no record of the packets it has seen.
  Every arrival of a non-empty packet that decodes and is not taken for a fragment
  is delivered: its message is appended to the application queue and, when a
  callback is installed, passed to the callback. The same packet processed twice
  is therefore delivered twice.
\<close>

theorem processIncomingData_delivers_each_arrival:
  assumes "d \<noteq> []"
    and "decodeIncoming env (config m) d = Inr pd"
    and "\<not> isFragment (uninitialized env)"
    and "message = (uninitialized env)
                    \<lparr> data := pd,
                      NetworkMessage.timestamp := word_of_int (system_clock_now env) \<rparr>"
  shows "\<exists>m1 m2. processIncomingData env d clientId m = Inr m1
           \<and> processIncomingData env d clientId m1 = Inr m2
           \<and> messageQueue m1 = messageQueue m @ [message]
           \<and> messageQueue m2 = messageQueue m @ [message, message]
           \<and> callbackLog m2 =
               (if hasMessageCallback m then callbackLog m @ [message, message]
                else callbackLog m)"
proof -
  let ?m1 = "deliver env clientId message m"
  let ?m2 = "deliver env clientId message ?m1"
  have 1: "processIncomingData env d clientId m = Inr ?m1"
    using assms by (simp add: processIncomingData_def Let_def)
  have "config ?m1 = config m" by (simp add: deliver_def)
  with assms have 2: "processIncomingData env d clientId ?m1 = Inr ?m2"
    by (simp add: processIncomingData_def Let_def)
  have "messageQueue ?m1 = messageQueue m @ [message]"
    by (simp add: deliver_def)
  moreover have "messageQueue ?m2 = messageQueue m @ [message, message]"
    by (simp add: deliver_def)
  moreover have "callbackLog ?m2 =
               (if hasMessageCallback m then callbackLog m @ [message, message]
                else callbackLog m)"
    by (simp add: deliver_def)
  ultimately show ?thesis using 1 2 by blast
qed

theorem processIncomingData_delivers_each_arrival_witness:
  "[1, 0, 0, 0, 9 :: byte] \<noteq> []
   \<and> \<not> isFragment (uninitialized (env_with plain_header))
   \<and> (\<exists>m1 m2.
         processIncomingData (env_with plain_header) [1, 0, 0, 0, 9] 0
           (setMessageCallback (NetworkManager_initialize plain_config)) = Inr m1
         \<and> processIncomingData (env_with plain_header) [1, 0, 0, 0, 9] 0 m1 = Inr m2
         \<and> messageQueue m2 = [plain_header\<lparr>data := [1, 0, 0, 0, 9]\<rparr>,
                               plain_header\<lparr>data := [1, 0, 0, 0, 9]\<rparr>]
         \<and> callbackLog m2 = [plain_header\<lparr>data := [1, 0, 0, 0, 9]\<rparr>,
                              plain_header\<lparr>data := [1, 0, 0, 0, 9]\<rparr>])"
proof -
  let ?env = "env_with plain_header"
  let ?m = "setMessageCallback (NetworkManager_initialize plain_config)"
  have 1: "[1, 0, 0, 0, 9 :: byte] \<noteq> []" by simp
  have 2: "decodeIncoming ?env (config ?m) [1, 0, 0, 0, 9] = Inr [1, 0, 0, 0, 9]"
    by (simp add: decodeIncoming_def setMessageCallback_def NetworkManager_initialize_def
          plain_config_def)
  have 3: "\<not> isFragment (uninitialized ?env)"
    by (simp add: env_with_def plain_header_def)
  have 4: "plain_header\<lparr>data := [1, 0, 0, 0, 9]\<rparr>
             = (uninitialized ?env)
                 \<lparr> data := [1, 0, 0, 0, 9],
                   NetworkMessage.timestamp := word_of_int (system_clock_now ?env) \<rparr>"
    by (simp add: env_with_def plain_header_def)
  have 5: "messageQueue ?m = []" "callbackLog ?m = []" "hasMessageCallback ?m"
    by (simp_all add: setMessageCallback_def NetworkManager_initialize_def)
  from processIncomingData_delivers_each_arrival [OF 1 2 3 4, of 0]
  obtain m1 m2 where
    "processIncomingData ?env [1, 0, 0, 0, 9] 0 ?m = Inr m1"
    "processIncomingData ?env [1, 0, 0, 0, 9] 0 m1 = Inr m2"
    "messageQueue m2 = messageQueue ?m @ [plain_header\<lparr>data := [1, 0, 0, 0, 9]\<rparr>,
                                          plain_header\<lparr>data := [1, 0, 0, 0, 9]\<rparr>]"
    "callbackLog m2 = (if hasMessageCallback ?m
                       then callbackLog ?m @ [plain_header\<lparr>data := [1, 0, 0, 0, 9]\<rparr>,
                                              plain_header\<lparr>data := [1, 0, 0, 0, 9]\<rparr>]
                       else callbackLog ?m)"
    by blast
  with 1 3 5 show ?thesis by auto
qed

text \<open>
  The packet \<open>01 00 00 00 09\<close> (sequence number 1) arrives twice: two messages are
  in the application queue and the callback has been invoked twice.
\<close>

theorem duplicate_delivered_twice_counterexample:
  "length (messageQueue (projr (processIncomingData (env_with plain_header) [1, 0, 0, 0, 9] 0
      (projr (processIncomingData (env_with plain_header) [1, 0, 0, 0, 9] 0
         (setMessageCallback (NetworkManager_initialize plain_config))))))) = 2
   \<and> length (callbackLog (projr (processIncomingData (env_with plain_header) [1, 0, 0, 0, 9] 0
      (projr (processIncomingData (env_with plain_header) [1, 0, 0, 0, 9] 0
         (setMessageCallback (NetworkManager_initialize plain_config))))))) = 2"
  by (simp add: processIncomingData_def decodeIncoming_def env_with_def plain_header_def
        NetworkManager_initialize_def plain_config_def Let_def deliver_def setMessageCallback_def)

section \<open>Compression\<close>

lemma compress_rec_small:
  assumes "compress_rec l call = Some r"
  shows "small_call call"
proof (rule compress_rec.raw_induct [where P = "\<lambda>l c y. small_call c", OF _ assms])
  fix f :: "CompressionLib \<Rightarrow> compress_call \<Rightarrow> compress_result option"
    and l c y
  assume IH: "\<And>l c y. f l c = Some y \<Longrightarrow> small_call c"
    and body: "(case c of
        Call_compress d alg \<Rightarrow>
          if d = [] then Some (Ret_bytes d)
          else Option.bind (f l (Call_shouldCompress d alg))
                 (\<lambda>r. case r of
                         Ret_bytes x \<Rightarrow> None
                       | Ret_bool b \<Rightarrow>
                           if \<not> b then Some (Ret_bytes d)
                           else Some (Ret_bytes (compress_switch l d alg)))
      | Call_shouldCompress d alg \<Rightarrow>
          if length d < MIN_COMPRESSION_SIZE then Some (Ret_bool False)
          else Option.bind (f l (Call_compress d alg))
                 (\<lambda>r. case r of
                         Ret_bytes compressed \<Rightarrow>
                           Some (Ret_bool (real (length compressed) / real (length d)
                                             < COMPRESSION_RATIO_THRESHOLD))
                       | Ret_bool x \<Rightarrow> None)) = Some y"
  show "small_call c"
  proof (cases c)
    case (Call_compress d alg)
    show ?thesis
    proof (cases "d = []")
      case True
      with Call_compress show ?thesis by (simp add: MIN_COMPRESSION_SIZE_def)
    next
      case False
      with body Call_compress obtain x where "f l (Call_shouldCompress d alg) = Some x"
        by (auto simp: bind_eq_Some_conv)
      from IH [OF this] Call_compress show ?thesis by simp
    qed
  next
    case (Call_shouldCompress d alg)
    show ?thesis
    proof (cases "length d < MIN_COMPRESSION_SIZE")
      case True
      with Call_shouldCompress show ?thesis by simp
    next
      case False
      with body Call_shouldCompress obtain x where "f l (Call_compress d alg) = Some x"
        by (auto simp: bind_eq_Some_conv)
      from IH [OF this] Call_shouldCompress show ?thesis by simp
    qed
  qed
qed

text \<open>
  From 64 bytes on, \<open>compress\<close> calls \<open>shouldCompress\<close>, which calls \<open>compress\<close>
  on the same bytes: the call never returns. Below 64 bytes it returns its input.
\<close>

lemma compress_diverges:
  assumes "MIN_COMPRESSION_SIZE \<le> length d"
  shows "compress l d alg = None"
proof (cases "compress_rec l (Call_compress d alg)")
  case None
  then show ?thesis by (simp add: compress_def)
next
  case (Some r)
  from compress_rec_small [OF this] assms show ?thesis by simp
qed

lemma compress_small:
  assumes "length d < MIN_COMPRESSION_SIZE"
  shows "compress l d alg = Some d"
proof -
  have sc: "compress_rec l (Call_shouldCompress d alg) = Some (Ret_bool False)"
    using assms by (subst compress_rec.simps) simp
  have "compress_rec l (Call_compress d alg) = Some (Ret_bytes d)"
    by (subst compress_rec.simps) (simp add: sc)
  then show ?thesis by (simp add: compress_def)
qed

text \<open>
  C9. The claim: \<open>Compression::compress\<close> returns for every input, also for inputs
  of 64 bytes or more. On the code, the call on 64 zero bytes does not return, with
  any library and any algorithm.
\<close>

theorem compress_64_bytes_never_returns:
  "compress l (replicate 64 0) alg = None"
  by (rule compress_diverges) (simp add: MIN_COMPRESSION_SIZE_def)

section \<open>The frame codec\<close>

lemma decryptCBC_forged_block:
  "decryptCBC [0, 0, 0, 0] (replicate 15 0 @ [3]) (replicate 16 0) (replicate 12 0)
     = Inr [243, 160, 216, 222, 234, 71]"
  by code_simp

text \<open>
  C3. The claim: when the 16-byte tag of an input does not verify, decryption fails
  and returns no plaintext. On the code, \<open>decryptGCM\<close> never looks at the tag: with
  any 16 bytes in its place the result is that of \<open>decryptCBC\<close> on the bytes
  before them.
\<close>

theorem decryptGCM_ignores_tag:
  assumes "length t = GCM_TAG_SIZE"
  shows "decryptGCM stale (ct @ t) key iv = decryptCBC stale ct key iv"
  using assms by (simp add: decryptGCM_def Let_def)

theorem decryptGCM_ignores_tag_witness:
  "length (replicate 16 (255 :: byte)) = GCM_TAG_SIZE
   \<and> decryptGCM [0, 0, 0, 0] ((replicate 15 0 @ [3]) @ replicate 16 255)
        (replicate 16 0) (replicate 12 0)
       = Inr [243, 160, 216, 222, 234, 71]"
proof -
  have len: "length (replicate 16 (255 :: byte)) = GCM_TAG_SIZE"
    by (simp add: GCM_TAG_SIZE_def)
  from decryptGCM_ignores_tag [OF len, of "[0, 0, 0, 0]" "replicate 15 0 @ [3]"
         "replicate 16 0" "replicate 12 0"] len
  show ?thesis by (simp only: decryptCBC_forged_block simp_thms)
qed

text \<open>
  The same payload under GCM, the stale tail of \<open>previousBlock\<close> and the tag array
  holding zero bytes on both sides: the frame does not decode either.
\<close>

lemma open_after_seal_fails_gcm:
  "processOutgoingData (env_with plain_header) (encrypted_config GCM) [0x41]
     = Some (Inr (replicate 12 0
                  @ [213, 68, 200, 202, 72, 81, 10, 251, 40, 254, 28, 250, 7, 12, 148, 86]
                  @ replicate 16 0))
   \<and> decodeIncoming (env_with plain_header) (encrypted_config GCM)
        (replicate 12 0
         @ [213, 68, 200, 202, 72, 81, 10, 251, 40, 254, 28, 250, 7, 12, 148, 86]
         @ replicate 16 0)
     = Inl (decryption_failed runtime_error)"
  by code_simp

lemma encryptECB_one_byte:
  "encryptECB [0x41] (replicate 16 0)
     = [213, 68, 200, 202, 72, 81, 10, 251, 40, 254, 28, 250, 7, 12, 148, 86]"
  by code_simp

lemma decryptECB_one_block:
  "decryptECB [213, 68, 200, 202, 72, 81, 10, 251, 40, 254, 28, 250, 7, 12, 148, 86]
     (replicate 16 0) = Inl runtime_error"
  by code_simp

text \<open>
  C1. The claim: the inbound pipeline applied to the output of the outbound pipeline
  gives the payload back, for every payload and every combination of compression
  and encryption. On the code, with encryption on (ECB mode, all-zero 128-bit key,
  all-zero IV) and compression off, the one-byte payload \<open>41\<close> is framed into 28
  bytes, and decoding those 28 bytes fails with the exception \<open>Invalid padding\<close>:
  the packet is dropped.
\<close>

theorem open_after_seal_fails:
  "processOutgoingData (env_with plain_header) (encrypted_config ECB) [0x41]
     = Some (Inr (replicate 12 0
                  @ [213, 68, 200, 202, 72, 81, 10, 251, 40, 254, 28, 250, 7, 12, 148, 86]))
   \<and> decodeIncoming (env_with plain_header) (encrypted_config ECB)
        (replicate 12 0
         @ [213, 68, 200, 202, 72, 81, 10, 251, 40, 254, 28, 250, 7, 12, 148, 86])
     = Inl (decryption_failed runtime_error)"
proof -
  have key: "validateKey (replicate 16 0)" and iv: "validateIV (replicate 12 0)"
    by (simp_all add: validateKey_def validateIV_def KEY_SIZE_128_def IV_SIZE_def)
  have out: "processOutgoingData (env_with plain_header) (encrypted_config ECB) [0x41]
     = Some (Inr (replicate 12 0 @ encryptECB [0x41] (replicate 16 0)))"
    using key iv
    by (simp add: processOutgoingData_def encrypted_config_def plain_config_def env_with_def
          Crypto_encrypt_def Let_def)
  have inc: "decodeIncoming (env_with plain_header) (encrypted_config ECB)
        (replicate 12 0 @ c)
     = (case decryptECB c (replicate 16 0) of
          Inl e \<Rightarrow> Inl (decryption_failed e) | Inr p \<Rightarrow> Inr p)" for c
    using key iv
    by (simp add: decodeIncoming_def encrypted_config_def plain_config_def env_with_def
          Crypto_decrypt_def Let_def IV_SIZE_def split: sum.splits)
  show ?thesis
    by (simp only: out inc encryptECB_one_byte decryptECB_one_block sum.case simp_thms)
qed


end
